theory Spec2Isabelle
  imports Main
begin

section \<open>The nodes of \<open>go/ast\<close> that \<open>types.go\<close> reads\<close>

text \<open>
  Go pointers are options (\<open>None\<close> is \<open>nil\<close>), Go strings are byte strings.
  Only the fields that \<open>types.go\<close> dereferences are kept.
\<close>

record ast_Ident =
  ident_Name :: string

record ast_File =
  File_Name :: "ast_Ident option"

record ast_FuncDecl =
  FuncDecl_Name :: "ast_Ident option"

text \<open>\<open>ast.CommentGroup\<close>: the texts of its comments, in order.\<close>

type_synonym ast_CommentGroup = "string list"

record ast_TypeSpec =
  TypeSpec_Name :: "ast_Ident option"
  TypeSpec_Comment :: "ast_CommentGroup option"

text \<open>
  \<open>ast.Decl\<close> is an interface with three implementations, all pointers. A
  \<open>*ast.FuncDecl\<close> stored in the interface may itself be a nil pointer, which
  is why \<open>TypeName\<close> tests \<open>ok && parentFun != nil\<close>.
\<close>

datatype ast_Decl = BadDeclPtr | GenDeclPtr | FuncDeclPtr "ast_FuncDecl option"

section \<open>Enum values\<close>

text \<open>
  Modelled from the spec: the typed literal value of an enum constant, whose
  declaration is not among the sources: a string, an integer or a boolean
  (float literals are left out).
\<close>

datatype literal = LString string | LInt int | LBool bool

text \<open>
  Modelled from the spec: the declaration of \<open>EnumValue\<close> is not among the
  sources. The spec's data model gives an enum value a literal value, a source
  identifier and an optional inline comment; its position in the list is its
  ordinal. Section 4.3 adds an optional per-identifier rename directive.
\<close>

record EnumValue =
  enum_value :: literal
  enum_ident :: string
  enum_comment :: "string option"
  enum_rename :: "string option"

section \<open>\<open>TypeSpecDef\<close> and its methods (\<open>types.go\<close>)\<close>

record TypeSpecDef =
  File :: "ast_File option"
  TypeSpec :: "ast_TypeSpec option"
  Enums :: "EnumValue list"
  PkgPath :: string
  ParentSpec :: "ast_Decl option"
  SchemaName :: string
  NotUnique :: bool

text \<open>
  What a method call ends in when it does not return. The receiver of every
  method is taken to be a non-nil pointer.
\<close>

datatype panic = NilDereference | SliceBoundsOutOfRange

text \<open>\<open>Name\<close> (lines 37-44). Both pointers are tested; nothing can panic.\<close>

definition Name :: "TypeSpecDef \<Rightarrow> string" where
  "Name t =
     (case TypeSpec t of
        None \<Rightarrow> []
      | Some ts \<Rightarrow> (case TypeSpec_Name ts of None \<Rightarrow> [] | Some i \<Rightarrow> ident_Name i))"

text \<open>
  Lines 54-59 hand a closure to \<open>strings.Map\<close>, which decodes its argument
  as UTF-8 the way a Go \<open>range\<close> over a string does: at each position it reads
  a well-formed sequence of one to four bytes as one rune or, where there is
  none, a single byte as the replacement rune \<open>U+FFFD\<close>; it writes the encoding
  of the mapped rune. \<open>leadByte\<close> gives, for the first byte of a sequence of
  two to four bytes, the length of the sequence and the range of its second
  byte (the tables \<open>first\<close> and \<open>acceptRanges\<close> of \<open>unicode/utf8\<close>); every
  later byte lies in \<open>0x80..0xBF\<close>. \<open>runeWidth\<close> is the length of the
  well-formed sequence at the head of a string, and 0 when there is none.
\<close>

definition inRange :: "nat \<Rightarrow> nat \<Rightarrow> char \<Rightarrow> bool" where
  "inRange lo hi b = (lo \<le> of_char b \<and> of_char b \<le> hi)"

definition leadByte :: "char \<Rightarrow> (nat \<times> nat \<times> nat) option" where
  "leadByte b0 =
     (let x = (of_char b0 :: nat) in
      if 0xC2 \<le> x \<and> x \<le> 0xDF then Some (2, 0x80, 0xBF)
      else if x = 0xE0 then Some (3, 0xA0, 0xBF)
      else if x = 0xED then Some (3, 0x80, 0x9F)
      else if 0xE1 \<le> x \<and> x \<le> 0xEF then Some (3, 0x80, 0xBF)
      else if x = 0xF0 then Some (4, 0x90, 0xBF)
      else if 0xF1 \<le> x \<and> x \<le> 0xF3 then Some (4, 0x80, 0xBF)
      else if x = 0xF4 then Some (4, 0x80, 0x8F)
      else None)"

fun runeWidth :: "string \<Rightarrow> nat" where
  "runeWidth [] = 0"
| "runeWidth (b0 # bs) =
     (if (of_char b0 :: nat) < 0x80 then 1
      else (case leadByte b0 of
              None \<Rightarrow> 0
            | Some (n, lo, hi) \<Rightarrow>
               (case bs of
                  [] \<Rightarrow> 0
                | b1 # bs' \<Rightarrow>
                   if inRange lo hi b1 \<and> n - 2 \<le> length bs'
                      \<and> list_all (inRange 0x80 0xBF) (take (n - 2) bs')
                   then n else 0)))"

text \<open>
  The closure of lines 54-59 on a rune of one byte. A rune of more bytes is
  none of the three runes tested and is returned as it is.
\<close>

definition sanitizeRune :: "char \<Rightarrow> char" where
  "sanitizeRune r =
     (if r = CHR 0x5C \<or> r = CHR ''/'' \<or> r = CHR ''.'' then CHR ''_'' else r)"

text \<open>The UTF-8 encoding of the replacement rune \<open>U+FFFD\<close>.\<close>

definition RuneError :: string where
  "RuneError = [CHR 0xEF, CHR 0xBF, CHR 0xBD]"

text \<open>
  The call of \<open>strings.Map\<close> on lines 54-59: a byte that starts no well-formed
  sequence comes out as the replacement rune, a rune of one byte goes through
  the closure, a rune of more bytes is copied.
\<close>

function sanitizePkgPath :: "string \<Rightarrow> string" where
  "sanitizePkgPath [] = []"
| "sanitizePkgPath (b # bs) =
     (if runeWidth (b # bs) = 0 then RuneError @ sanitizePkgPath bs
      else if runeWidth (b # bs) = 1 then sanitizeRune b # sanitizePkgPath bs
      else take (runeWidth (b # bs)) (b # bs)
             @ sanitizePkgPath (drop (runeWidth (b # bs)) (b # bs)))"
  by pat_completeness auto

termination
  by (relation "measure length") auto

text \<open>
  Modelled from the spec: \<open>fullTypeName\<close> is called on line 68 but is not among
  the sources. The spec writes the qualified forms as \<open>unit.routine.ShortName\<close>
  and \<open>sanitized-unit-path.ShortName\<close>: the components in order, separated by
  dots.
\<close>

fun fullTypeName :: "string list \<Rightarrow> string" where
  "fullTypeName [] = []"
| "fullTypeName [p] = p"
| "fullTypeName (p # q # ps) = p @ ''.'' @ fullTypeName (q # ps)"

text \<open>
  Lines 52-63: the first component of the name. A colliding declaration
  contributes its sanitized package path; a unique one the package name of its
  file when it has a file, and nothing otherwise.
\<close>

definition unitNames :: "TypeSpecDef \<Rightarrow> panic + string list" where
  "unitNames t =
     (if NotUnique t then Inr [sanitizePkgPath (PkgPath t)]
      else (case File t of
              None \<Rightarrow> Inr []
            | Some f \<Rightarrow> (case File_Name f of
                          None \<Rightarrow> Inl NilDereference
                        | Some i \<Rightarrow> Inr [ident_Name i])))"

text \<open>Line 64: the type assertion together with the nil test.\<close>

definition parentFun :: "TypeSpecDef \<Rightarrow> ast_FuncDecl option" where
  "parentFun t =
     (case ParentSpec t of Some (FuncDeclPtr (Some fd)) \<Rightarrow> Some fd | _ \<Rightarrow> None)"

text \<open>
  \<open>TypeName\<close> (lines 46-69). The helper \<open>ignoreNameOverride\<close> is not among the
  sources and the spec does not describe it, so it is a parameter. Slicing
  \<open>Name[1:]\<close> panics on the empty string.
\<close>

definition TypeName :: "(string \<Rightarrow> bool) \<Rightarrow> TypeSpecDef \<Rightarrow> panic + string" where
  "TypeName ignoreNameOverride t =
     (case TypeSpec t of
        None \<Rightarrow> Inl NilDereference
      | Some ts \<Rightarrow>
         (case TypeSpec_Name ts of
            None \<Rightarrow> Inl NilDereference
          | Some i \<Rightarrow>
             if ignoreNameOverride (ident_Name i) then
               (if length (ident_Name i) < 1 then Inl SliceBoundsOutOfRange
                else Inr (drop 1 (ident_Name i)))
             else
               (case unitNames t of
                  Inl e \<Rightarrow> Inl e
                | Inr names \<Rightarrow>
                   (case parentFun t of
                      None \<Rightarrow> Inr (fullTypeName (names @ [ident_Name i]))
                    | Some fd \<Rightarrow>
                       (case FuncDecl_Name fd of
                          None \<Rightarrow> Inl NilDereference
                        | Some f \<Rightarrow>
                           Inr (fullTypeName (names @ [ident_Name f] @ [ident_Name i])))))))"

text \<open>\<open>FullPath\<close> (lines 71-74).\<close>

definition FullPath :: "TypeSpecDef \<Rightarrow> string" where
  "FullPath t = PkgPath t @ ''.'' @ Name t"

text \<open>
  \<open>Alias\<close> (lines 76-78). The helper \<open>nameOverride\<close>, which reads the alias off
  the comment group of the declaration, is not among the sources; it is a
  parameter.
\<close>

definition Alias :: "(ast_CommentGroup option \<Rightarrow> string) \<Rightarrow> TypeSpecDef \<Rightarrow> panic + string" where
  "Alias nameOverride t =
     (case TypeSpec t of
        None \<Rightarrow> Inl NilDereference
      | Some ts \<Rightarrow> Inr (nameOverride (TypeSpec_Comment ts)))"

text \<open>\<open>SetSchemaName\<close> (lines 80-87); the updated declaration is returned.\<close>

definition SetSchemaName ::
  "(ast_CommentGroup option \<Rightarrow> string) \<Rightarrow> (string \<Rightarrow> bool) \<Rightarrow> TypeSpecDef \<Rightarrow> panic + TypeSpecDef" where
  "SetSchemaName nameOverride ignoreNameOverride t =
     (case Alias nameOverride t of
        Inl e \<Rightarrow> Inl e
      | Inr alias \<Rightarrow>
         if alias \<noteq> [] then Inr (t\<lparr>SchemaName := alias\<rparr>)
         else (case TypeName ignoreNameOverride t of
                 Inl e \<Rightarrow> Inl e
               | Inr n \<Rightarrow> Inr (t\<lparr>SchemaName := n\<rparr>)))"

text \<open>
  Instances of the two absent helpers, used where a method is run on a concrete
  declaration: a name is exempt from renaming when it starts with a dollar
  sign, and the alias of a declaration is the word after \<open>@name\<close> in the first
  comment that starts so.
\<close>

definition dollarPrefixed :: "string \<Rightarrow> bool" where
  "dollarPrefixed name = (case name of [] \<Rightarrow> False | c # _ \<Rightarrow> c = CHR ''$'')"

fun atName :: "ast_CommentGroup option \<Rightarrow> string" where
  "atName None = []"
| "atName (Some []) = []"
| "atName (Some (c # cs)) =
     (let body = dropWhile (\<lambda>x. x = CHR ''/'' \<or> x = CHR '' '') c
      in if take 6 body = ''@name '' then takeWhile (\<lambda>x. x \<noteq> CHR '' '') (drop 6 body)
         else atName (Some cs))"


section \<open>The schema resolver\<close>

text \<open>
  The files that hold the parser (type resolution, struct and field parsing,
  enum emission, the override table) are not among the sources: only their
  tests are. The definitions of this section follow sections 3 and 4 of the
  spec. Generic instantiation and the validation constraints of a field are
  left out; nothing below depends on them.
\<close>

text \<open>
  Modelled from the spec: the primitive kinds a scalar of the absent parser
  maps to (string, integer, number, boolean).
\<close>

datatype prim = PString | PInteger | PNumber | PBoolean

text \<open>
  Modelled from the spec: the directive set of a composite field of the absent
  field parser (ignore, read-only, required, rename, inline-embed,
  treat-as-string). Section 4.2 gives treat-as-string no effect on resolution,
  and it has none here.
\<close>

record directives =
  dir_ignore :: bool
  dir_readonly :: bool
  dir_required :: bool
  dir_rename :: "string option"
  dir_embed :: bool
  dir_as_string :: bool

text \<open>
  Modelled from the spec: what a composite field of the absent field parser
  carries besides its type: its declared name, its directives, its
  documentation text and its example value.
\<close>

record field_info =
  fi_name :: string
  fi_dirs :: directives
  fi_doc :: string
  fi_example :: "string option"

text \<open>
  Modelled from the spec: the type expressions of the absent parser. The data
  model lists the variants scalar, named reference, pointer-to, slice-of,
  map(key, value), composite-with-fields, interface/any and function type;
  section 4.2 adds the channel type as a second invalid shape. A scalar carries
  its mapped primitive kind and format.
\<close>

datatype type_expr =
    Scalar prim string
  | NamedRef string
  | PointerTo type_expr
  | SliceOf type_expr
  | MapOf type_expr type_expr
  | Composite "field list"
  | AnyType
  | FuncType
  | ChanType
and field = Field field_info type_expr

text \<open>
  Modelled from the spec: a registered type declaration of the absent symbol
  registry, a \<open>TypeSpecDef\<close> together with its underlying type expression. Its
  canonical name is the memoized \<open>SchemaName\<close>, its enum values are \<open>Enums\<close>.
\<close>

record Declaration =
  decl_def :: TypeSpecDef
  decl_type :: type_expr

text \<open>
  Modelled from the spec: an entry of the absent override table, either the
  elide marker or a replacement type expression (taken as already parsed).
\<close>

datatype override_entry = Elide | Replacement type_expr

text \<open>
  Modelled from the spec: the enumeration metadata of a scalar schema of the
  absent resolver: the value list, the name-to-comment map and the description
  list.
\<close>

record enum_meta =
  em_values :: "literal list"
  em_comments :: "string \<rightharpoonup> string"
  em_descriptions :: "string list"

text \<open>
  Modelled from the spec: the sibling metadata that the absent field synthesis
  attaches to a property: description, read-only flag and example.
\<close>

record meta =
  description :: string
  readOnly :: bool
  example :: "string option"

text \<open>
  Modelled from the spec: the schemas the absent resolver produces. A schema
  has a kind (scalar with optional enumeration metadata, array, map, object
  with its property map in insertion order and its required-property set,
  reference to a canonical name, the \<open>allOf\<close> wrapper form, or the empty
  untyped schema) and its sibling metadata.
\<close>

datatype schema = Schema shape meta
and shape =
    KScalar prim string "enum_meta option"
  | KArray schema
  | KMap "schema option"
  | KObject "(string \<times> schema) list" "string set"
  | KRef string
  | KAllOf "schema list"
  | KAny

text \<open>
  Modelled from the spec: what the absent resolver reads: the registered
  declarations by name, the override table, and the naming strategy as a
  function on field names.
\<close>

record env =
  registry :: "string \<rightharpoonup> Declaration"
  overrides :: "string \<rightharpoonup> override_entry"
  naming :: "string \<Rightarrow> string"

text \<open>
  Modelled from the spec: the fatal errors of the absent resolver (section 7):
  an unresolved reference, with the offending type name, and an invalid type
  shape.
\<close>

datatype error = UnresolvedReference string | InvalidTypeShape

text \<open>
  Modelled from the spec: what the absent resolver answers when it does not
  fail: the signal to omit the property, or a schema.
\<close>

datatype outcome = Omitted | Resolved schema

text \<open>
  Modelled from the spec: the map from canonical names to registered schemas
  of the absent resolver, which is also its visited set; and the state while
  the fields of a composite are resolved: property map, required set, and
  that map.
\<close>

type_synonym out_map = "string \<rightharpoonup> schema"

type_synonym acc = "(string \<times> schema) list \<times> string set \<times> out_map"

text \<open>
  Modelled from the spec: the text of an error of the absent resolver. The
  text for an unresolved reference is the one \<open>TestOverrides_getTypeSchema\<close>
  expects.
\<close>

definition error_text :: "error \<Rightarrow> string" where
  "error_text e =
     (case e of
        UnresolvedReference n \<Rightarrow> ''cannot find type definition: '' @ n
      | InvalidTypeShape \<Rightarrow> ''invalid type shape'')"

subsection \<open>Enum extractor\<close>

text \<open>
  Modelled from the spec: the identifier under which the absent enum extractor
  enters a constant in the name-to-comment map: its rename, if it has one.
\<close>

definition enum_key :: "EnumValue \<Rightarrow> string" where
  "enum_key e = (case enum_rename e of None \<Rightarrow> enum_ident e | Some r \<Rightarrow> r)"

text \<open>
  Modelled from the spec: the entry of a constant in the description list of
  the absent enum extractor: its comment, the empty string where it has none.
\<close>

definition enum_description :: "EnumValue \<Rightarrow> string" where
  "enum_description e = (case enum_comment e of None \<Rightarrow> [] | Some c \<Rightarrow> c)"

text \<open>
  Modelled from the spec: the name-to-comment map of the absent enum
  extractor, filled in source order, with an entry only for an identifier that
  carries an inline comment.
\<close>

fun enum_comments :: "EnumValue list \<Rightarrow> (string \<rightharpoonup> string) \<Rightarrow> (string \<rightharpoonup> string)" where
  "enum_comments [] m = m"
| "enum_comments (e # es) m =
     enum_comments es (case enum_comment e of None \<Rightarrow> m | Some c \<Rightarrow> m(enum_key e \<mapsto> c))"

text \<open>
  Modelled from the spec: the three structures the absent enum extractor
  builds from the constants in source order (section 4.3): the ordered value
  list, the name-to-comment map, and the description list aligned with the
  value list.
\<close>

definition enum_extract :: "EnumValue list \<Rightarrow> enum_meta" where
  "enum_extract es =
     \<lparr>em_values = map enum_value es,
      em_comments = enum_comments es Map.empty,
      em_descriptions = map enum_description es\<rparr>"

subsection \<open>Field synthesis\<close>

text \<open>Modelled from the spec: the metadata of a schema of the absent resolver that carries none.\<close>

definition no_meta :: meta where
  "no_meta = \<lparr>description = [], readOnly = False, example = None\<rparr>"

text \<open>
  Modelled from the spec: the sibling metadata a field of the absent field
  parser carries: its documentation as description, its read-only directive,
  its example.
\<close>

definition field_meta :: "field_info \<Rightarrow> meta" where
  "field_meta fi =
     \<lparr>description = fi_doc fi, readOnly = dir_readonly (fi_dirs fi), example = fi_example fi\<rparr>"

text \<open>
  Modelled from the spec: the absent decision between a bare reference and the
  wrapper form. A field whose type resolved to a reference keeps the bare
  reference when it carries no sibling metadata and is wrapped in
  \<open>allOf: [ref]\<close>, the metadata on the wrapper, otherwise; on any other schema
  the metadata is attached to the schema itself.
\<close>

fun property_of :: "field_info \<Rightarrow> schema \<Rightarrow> schema" where
  "property_of fi (Schema (KRef c) m) =
     (if field_meta fi = no_meta then Schema (KRef c) m
      else Schema (KAllOf [Schema (KRef c) m]) (field_meta fi))"
| "property_of fi (Schema k m) = Schema k (field_meta fi)"

text \<open>
  Modelled from the spec: the emitted property name of the absent field
  parser. A rename directive bypasses the naming strategy.
\<close>

definition emitted_name :: "env \<Rightarrow> field_info \<Rightarrow> string" where
  "emitted_name en fi =
     (case dir_rename (fi_dirs fi) of None \<Rightarrow> naming en (fi_name fi) | Some r \<Rightarrow> r)"

text \<open>
  Modelled from the spec: insertion of a field of the owner into the property
  map of the absent struct parser. The field takes its name, replacing an entry
  already there.
\<close>

definition add_own :: "string \<Rightarrow> schema \<Rightarrow> (string \<times> schema) list \<Rightarrow> (string \<times> schema) list" where
  "add_own n s ps =
     (if n \<in> fst ` set ps then map (\<lambda>(k, v). if k = n then (k, s) else (k, v)) ps
      else ps @ [(n, s)])"

text \<open>
  Modelled from the spec: insertion of a promoted field of an embedded
  composite into the property map of the absent struct parser. Embedding has
  the lowest priority: the field is dropped when its name is taken.
\<close>

definition add_promoted :: "(string \<times> schema) \<Rightarrow> (string \<times> schema) list \<Rightarrow> (string \<times> schema) list" where
  "add_promoted p ps = (if fst p \<in> fst ` set ps then ps else ps @ [p])"

text \<open>
  Modelled from the spec: the fields the absent struct parser promotes from an
  embedded type: the properties of the composite it resolved to, read through
  the reference when it is a named one.
\<close>

fun promoted_props :: "out_map \<Rightarrow> schema \<Rightarrow> (string \<times> schema) list" where
  "promoted_props out (Schema (KObject ps req) m) = ps"
| "promoted_props out (Schema (KRef c) m) =
     (case out c of Some (Schema (KObject ps req) m') \<Rightarrow> ps | _ \<Rightarrow> [])"
| "promoted_props out (Schema k m) = []"

text \<open>
  Modelled from the spec: the step of the absent resolver that builds the
  schema of a slice or a map around the schema of its component; an error or
  the omit signal is passed on.
\<close>

definition on_resolved ::
  "(schema \<Rightarrow> schema) \<Rightarrow> (error + outcome \<times> out_map) option \<Rightarrow> (error + outcome \<times> out_map) option" where
  "on_resolved f r =
     (case r of
        Some (Inr (Resolved s, out')) \<Rightarrow> Some (Inr (Resolved (f s), out'))
      | _ \<Rightarrow> r)"

text \<open>
  Modelled from the spec: the step of the absent resolver that makes the
  object schema of an anonymous composite from its resolved fields.
\<close>

definition close_object :: "(error + acc) option \<Rightarrow> (error + outcome \<times> out_map) option" where
  "close_object r =
     (case r of
        None \<Rightarrow> None
      | Some (Inl e) \<Rightarrow> Some (Inl e)
      | Some (Inr (ps, req, out')) \<Rightarrow> Some (Inr (Resolved (Schema (KObject ps req) no_meta), out')))"

text \<open>
  Modelled from the spec: the step of the absent resolver that stores the
  object schema of a named composite under its canonical name, in place of the
  placeholder, and answers with a reference to it.
\<close>

definition register :: "string \<Rightarrow> (error + acc) option \<Rightarrow> (error + outcome \<times> out_map) option" where
  "register c r =
     (case r of
        None \<Rightarrow> None
      | Some (Inl e) \<Rightarrow> Some (Inl e)
      | Some (Inr (ps, req, out')) \<Rightarrow>
          Some (Inr (Resolved (Schema (KRef c) no_meta), out'(c \<mapsto> Schema (KObject ps req) no_meta))))"

text \<open>
  Modelled from the spec: the step of the absent struct parser that enters one
  resolved field into the property map and the required set of its owner, by
  the precedence rename, embed, default (ignore is applied before the type is
  resolved). An elided type leaves the field out. A field is required only by
  its own directive.
\<close>

definition add_field ::
  "env \<Rightarrow> field_info \<Rightarrow> (string \<times> schema) list \<Rightarrow> string set
     \<Rightarrow> (error + outcome \<times> out_map) option \<Rightarrow> (error + acc) option" where
  "add_field en fi ps req r =
     (case r of
        None \<Rightarrow> None
      | Some (Inl e) \<Rightarrow> Some (Inl e)
      | Some (Inr (Omitted, out')) \<Rightarrow> Some (Inr (ps, req, out'))
      | Some (Inr (Resolved s, out')) \<Rightarrow>
          (if dir_rename (fi_dirs fi) = None \<and> dir_embed (fi_dirs fi)
           then Some (Inr (fold add_promoted (promoted_props out' s) ps, req, out'))
           else Some (Inr (add_own (emitted_name en fi) (property_of fi s) ps,
                           (if dir_required (fi_dirs fi) then insert (emitted_name en fi) req else req),
                           out'))))"

subsection \<open>Resolution\<close>

text \<open>
  Modelled from the spec: the absent resolver \<open>resolve(typeExpression,
  overrides, visited)\<close> of section 4.2, case by case: the override check on a
  named reference (elide marker or replacement), the error for a name that is
  neither overridden nor registered, the scalar schema with the enum metadata
  of a declaration that has constants, the reference returned for a named
  composite, whose placeholder is entered before its fields are resolved, the
  pointer that resolves as its target, the array, the map, the empty schema of
  \<open>any\<close> and the fatal error on a function or channel type. The spec's
  recursion does not always end (a replacement may name the type it replaces):
  the first argument bounds the number of replacements and declarations
  entered, and \<open>None\<close> is the answer when it is used up.
\<close>

function (sequential) resolve :: "nat \<Rightarrow> env \<Rightarrow> type_expr \<Rightarrow> out_map \<Rightarrow> (error + outcome \<times> out_map) option"
and resolve_field :: "nat \<Rightarrow> env \<Rightarrow> field \<Rightarrow> acc \<Rightarrow> (error + acc) option"
and resolve_fields :: "nat \<Rightarrow> env \<Rightarrow> field list \<Rightarrow> acc \<Rightarrow> (error + acc) option" where
  "resolve k en (Scalar p fmt) out = Some (Inr (Resolved (Schema (KScalar p fmt None) no_meta), out))"
| "resolve k en (PointerTo t) out = resolve k en t out"
| "resolve k en (SliceOf t) out = on_resolved (\<lambda>s. Schema (KArray s) no_meta) (resolve k en t out)"
| "resolve k en (MapOf kt v) out =
     (if v = AnyType then Some (Inr (Resolved (Schema (KMap None) no_meta), out))
      else on_resolved (\<lambda>s. Schema (KMap (Some s)) no_meta) (resolve k en v out))"
| "resolve k en (Composite fs) out = close_object (resolve_fields k en fs ([], {}, out))"
| "resolve k en AnyType out = Some (Inr (Resolved (Schema KAny no_meta), out))"
| "resolve k en FuncType out = Some (Inl InvalidTypeShape)"
| "resolve k en ChanType out = Some (Inl InvalidTypeShape)"
| "resolve k en (NamedRef n) out =
     (case overrides en n of
        Some Elide \<Rightarrow> Some (Inr (Omitted, out))
      | Some (Replacement e) \<Rightarrow> (case k of 0 \<Rightarrow> None | Suc k' \<Rightarrow> resolve k' en e out)
      | None \<Rightarrow>
         (case registry en n of
            None \<Rightarrow> Some (Inl (UnresolvedReference n))
          | Some d \<Rightarrow>
             (case decl_type d of
                Scalar p fmt \<Rightarrow>
                  Some (Inr (Resolved (Schema (KScalar p fmt
                          (if Enums (decl_def d) = [] then None
                           else Some (enum_extract (Enums (decl_def d)))))
                        no_meta), out))
              | Composite fs \<Rightarrow>
                  (if SchemaName (decl_def d) \<in> dom out
                   then Some (Inr (Resolved (Schema (KRef (SchemaName (decl_def d))) no_meta), out))
                   else (case k of
                           0 \<Rightarrow> None
                         | Suc k' \<Rightarrow>
                            register (SchemaName (decl_def d))
                              (resolve_fields k' en fs
                                 ([], {}, out(SchemaName (decl_def d) \<mapsto> Schema (KObject [] {}) no_meta)))))
              | t \<Rightarrow> (case k of 0 \<Rightarrow> None | Suc k' \<Rightarrow> resolve k' en t out))))"
| "resolve_field k en (Field fi t) (ps, req, out) =
     (if dir_ignore (fi_dirs fi) then Some (Inr (ps, req, out))
      else add_field en fi ps req (resolve k en t out))"
| "resolve_fields k en [] a = Some (Inr a)"
| "resolve_fields k en (f # fs) a =
     (case resolve_field k en f a of
        None \<Rightarrow> None
      | Some (Inl e) \<Rightarrow> Some (Inl e)
      | Some (Inr a') \<Rightarrow> resolve_fields k en fs a')"
  by pat_completeness auto

termination
  by (relation "inv_image (less_than <*lex*> less_than)
        (\<lambda>x. case x of
                Inl (k, en, e, out) \<Rightarrow> (k, size e)
              | Inr (Inl (k, en, f, a)) \<Rightarrow> (k, size f)
              | Inr (Inr (k, en, fs, a)) \<Rightarrow> (k, size_list size fs))")
     auto


section \<open>Concrete declarations\<close>

text \<open>
  The first declaration and the function-scoped one are those built in
  \<open>TestParser_ParseDefinition\<close>; \<open>decl_Parent\<close> is the renamed struct of
  \<open>TestParseRenamedStructDefinition\<close>; \<open>decl_response\<close> is the type
  \<open>response\<close> of \<open>TestParseFunctionScopedStructDefinition\<close>, with a choice of
  enclosing declaration; \<open>decl_Pet\<close> is a colliding declaration \<open>Pet\<close> of a
  package \<open>model\<close> at a given path.
\<close>

definition decl_swag_Test :: TypeSpecDef where
  "decl_swag_Test =
     \<lparr>File = Some \<lparr>File_Name = Some \<lparr>ident_Name = ''swag''\<rparr>\<rparr>,
      TypeSpec = Some \<lparr>TypeSpec_Name = Some \<lparr>ident_Name = ''Test''\<rparr>, TypeSpec_Comment = None\<rparr>,
      Enums = [], PkgPath = ''github.com/swagger/swag'', ParentSpec = None,
      SchemaName = [], NotUnique = False\<rparr>"

definition decl_model_Test :: TypeSpecDef where
  "decl_model_Test =
     \<lparr>File = Some \<lparr>File_Name = Some \<lparr>ident_Name = ''model''\<rparr>\<rparr>,
      TypeSpec = Some \<lparr>TypeSpec_Name = Some \<lparr>ident_Name = ''Test''\<rparr>, TypeSpec_Comment = None\<rparr>,
      Enums = [], PkgPath = ''github.com/swagger/swag/model'',
      ParentSpec = Some (FuncDeclPtr (Some \<lparr>FuncDecl_Name = Some \<lparr>ident_Name = ''TestFuncDecl''\<rparr>\<rparr>)),
      SchemaName = [], NotUnique = False\<rparr>"

definition decl_Pet :: "string \<Rightarrow> TypeSpecDef" where
  "decl_Pet path =
     \<lparr>File = Some \<lparr>File_Name = Some \<lparr>ident_Name = ''model''\<rparr>\<rparr>,
      TypeSpec = Some \<lparr>TypeSpec_Name = Some \<lparr>ident_Name = ''Pet''\<rparr>, TypeSpec_Comment = None\<rparr>,
      Enums = [], PkgPath = path, ParentSpec = Some GenDeclPtr,
      SchemaName = [], NotUnique = True\<rparr>"


definition decl_Parent :: TypeSpecDef where
  "decl_Parent =
     \<lparr>File = Some \<lparr>File_Name = Some \<lparr>ident_Name = ''main''\<rparr>\<rparr>,
      TypeSpec = Some \<lparr>TypeSpec_Name = Some \<lparr>ident_Name = ''Parent''\<rparr>,
                       TypeSpec_Comment = Some [''//@name Teacher'']\<rparr>,
      Enums = [], PkgPath = ''api'', ParentSpec = Some GenDeclPtr,
      SchemaName = [], NotUnique = False\<rparr>"


section \<open>Concrete declarations for the resolver\<close>

text \<open>
  The types of the tests, as registered declarations: \<open>Teacher\<close> and
  \<open>Student\<close> of \<open>TestParser_RefWithOtherPropertiesIsWrappedInAllOf\<close>, \<open>Child\<close>
  and \<open>Parent\<close> of \<open>TestParser_ParseStructPointerMembers\<close>, the owner of
  \<open>TestParseSwaggerignoreForEmbedded\<close> with its ignored embedded \<open>Child\<close>, the
  enum of the spec's example (\<open>A = 1 // first\<close>, \<open>B = 2\<close>, \<open>C = 3 // third\<close>), and
  the function type of \<open>TestParser_ParseDefinition\<close>. The override table is
  that of \<open>TestOverrides_getTypeSchema\<close>; the naming strategy is the identity.
\<close>

definition plain :: directives where
  "plain = \<lparr>dir_ignore = False, dir_readonly = False, dir_required = False,
            dir_rename = None, dir_embed = False, dir_as_string = False\<rparr>"

definition fld :: "string \<Rightarrow> directives \<Rightarrow> string \<Rightarrow> field_info" where
  "fld n d doc = \<lparr>fi_name = n, fi_dirs = d, fi_doc = doc, fi_example = None\<rparr>"

definition named_decl :: "string \<Rightarrow> string \<Rightarrow> string \<Rightarrow> EnumValue list \<Rightarrow> type_expr \<Rightarrow> Declaration" where
  "named_decl pkg name canonical es t =
     \<lparr>decl_def =
        \<lparr>File = Some \<lparr>File_Name = Some \<lparr>ident_Name = pkg\<rparr>\<rparr>,
         TypeSpec = Some \<lparr>TypeSpec_Name = Some \<lparr>ident_Name = name\<rparr>, TypeSpec_Comment = None\<rparr>,
         Enums = es, PkgPath = pkg, ParentSpec = Some GenDeclPtr,
         SchemaName = canonical, NotUnique = False\<rparr>,
      decl_type = t\<rparr>"

definition string_schema :: schema where
  "string_schema = Schema (KScalar PString [] None) no_meta"

definition class_enums :: "EnumValue list" where
  "class_enums =
     [\<lparr>enum_value = LInt 1, enum_ident = ''A'', enum_comment = Some ''first'', enum_rename = None\<rparr>,
      \<lparr>enum_value = LInt 2, enum_ident = ''B'', enum_comment = None, enum_rename = None\<rparr>,
      \<lparr>enum_value = LInt 3, enum_ident = ''C'', enum_comment = Some ''third'', enum_rename = None\<rparr>]"

definition reg_Teacher :: Declaration where
  "reg_Teacher =
     named_decl ''main'' ''Teacher'' ''Teacher'' []
       (Composite [Field (fld ''Name'' plain []) (Scalar PString [])])"

definition reg_Student :: Declaration where
  "reg_Student =
     named_decl ''main'' ''Student'' ''Student'' []
       (Composite
          [Field (fld ''Name'' plain []) (Scalar PString []),
           Field (fld ''Age'' (plain\<lparr>dir_readonly := True\<rparr>) []) (Scalar PInteger []),
           Field (fld ''Teacher'' (plain\<lparr>dir_readonly := True\<rparr>) []) (NamedRef ''Teacher''),
           Field (fld ''OtherTeacher'' plain []) (NamedRef ''Teacher'')])"

definition reg_Child :: Declaration where
  "reg_Child =
     named_decl ''api'' ''Child'' ''api.Child'' []
       (Composite [Field (fld ''Name'' plain []) (Scalar PString [])])"

definition reg_Parent :: Declaration where
  "reg_Parent =
     named_decl ''api'' ''Parent'' ''api.Parent'' []
       (Composite
          [Field (fld ''Test1'' plain ''test1'') (PointerTo (Scalar PString [])),
           Field (fld ''Test2'' plain ''test2'') (PointerTo (NamedRef ''Child''))])"

definition reg_Owner :: Declaration where
  "reg_Owner =
     named_decl ''main'' ''Owner'' ''Owner'' []
       (Composite
          [Field (fld ''Name'' plain []) (Scalar PString []),
           Field (fld ''Child'' (plain\<lparr>dir_ignore := True, dir_embed := True\<rparr>) []) (NamedRef ''Child'')])"

definition reg_Class :: Declaration where
  "reg_Class = named_decl ''types'' ''Class'' ''types.Class'' class_enums (Scalar PInteger [])"

definition reg_Test :: Declaration where
  "reg_Test = \<lparr>decl_def = decl_model_Test, decl_type = FuncType\<rparr>"

definition test_env :: env where
  "test_env =
     \<lparr>registry =
        [''Teacher'' \<mapsto> reg_Teacher, ''Student'' \<mapsto> reg_Student, ''Child'' \<mapsto> reg_Child,
         ''Parent'' \<mapsto> reg_Parent, ''Owner'' \<mapsto> reg_Owner, ''Class'' \<mapsto> reg_Class,
         ''Test'' \<mapsto> reg_Test],
      overrides = [''sql.NullString'' \<mapsto> Replacement (Scalar PString [])],
      naming = (\<lambda>n. n)\<rparr>"

section \<open>Canonical names\<close>

text \<open>The bytes of a rune of more than one byte are not ASCII.\<close>

lemma leadByte_bounds: "leadByte b = Some (n, lo, hi) \<Longrightarrow> 2 \<le> n \<and> 0x80 \<le> lo"
  by (auto simp: leadByte_def Let_def split: if_splits)

lemma runeWidth_ascii: "(of_char b :: nat) < 0x80 \<Longrightarrow> runeWidth (b # bs) = 1"
  by simp

lemma runeWidth_high:
  assumes "1 < runeWidth (b # bs)"
  shows "\<forall>c \<in> set (take (runeWidth (b # bs)) (b # bs)). (0x80::nat) \<le> of_char c"
proof -
  from assms have hb: "(0x80::nat) \<le> of_char b"
    by (auto split: if_splits)
  with assms obtain n lo hi b1 bs' where l: "leadByte b = Some (n, lo, hi)" and bs: "bs = b1 # bs'"
    and ok: "inRange lo hi b1" "\<forall>c \<in> set (take (n - 2) bs'). inRange 0x80 0xBF c"
    and w: "runeWidth (b # bs) = n"
    by (auto simp: list_all_iff split: if_splits option.splits list.splits)
  from leadByte_bounds [OF l] have n: "2 \<le> n" and lo: "0x80 \<le> lo" by simp_all
  from n have "take n (b # bs) = b # b1 # take (n - 2) bs'"
    by (simp add: bs take_Cons' numeral_2_eq_2)
  with hb ok lo w show ?thesis
    by (auto simp: inRange_def)
qed

text \<open>No slash, backslash or dot is left in a sanitized path.\<close>

lemma sanitize_no_sep:
  "c \<in> set (sanitizePkgPath p) \<Longrightarrow> c \<noteq> CHR ''.'' \<and> c \<noteq> CHR ''/'' \<and> c \<noteq> CHR 0x5C"
proof (induction p arbitrary: c rule: sanitizePkgPath.induct)
  case 1
  then show ?case by simp
next
  case (2 b bs)
  consider (bad) "runeWidth (b # bs) = 0" | (ascii) "runeWidth (b # bs) = 1" | (multi) "1 < runeWidth (b # bs)"
    by linarith
  then show ?case
  proof cases
    case bad
    with 2 show ?thesis by (auto simp: RuneError_def simp del: runeWidth.simps)
  next
    case ascii
    with 2 show ?thesis by (auto simp: sanitizeRune_def simp del: runeWidth.simps split: if_splits)
  next
    case multi
    with 2 runeWidth_high [OF multi] show ?thesis by (auto simp del: runeWidth.simps)
  qed
qed

text \<open>On an ASCII path, sanitizing applies the closure to every byte.\<close>

lemma sanitize_ascii:
  "\<forall>c \<in> set p. (of_char c :: nat) < 0x80 \<Longrightarrow> sanitizePkgPath p = map sanitizeRune p"
  by (induction p) (simp_all add: runeWidth_ascii del: runeWidth.simps)


text \<open>
  C10. \<open>Name\<close> returns on every declaration: the empty string when the
  \<open>TypeSpec\<close> is absent (and when its name node is absent), the declared
  identifier when both are present.
\<close>

theorem Name_total:
  "(TypeSpec t = None \<longrightarrow> Name t = [])
   \<and> (\<forall>ts. TypeSpec t = Some ts \<longrightarrow>
          Name t = (case TypeSpec_Name ts of None \<Rightarrow> [] | Some i \<Rightarrow> ident_Name i))"
  by (simp add: Name_def)

text \<open>C10 at the declaration \<open>Test\<close> and at the same declaration without its \<open>TypeSpec\<close>.\<close>

theorem Name_total_witness:
  "TypeSpec decl_swag_Test = Some \<lparr>TypeSpec_Name = Some \<lparr>ident_Name = ''Test''\<rparr>, TypeSpec_Comment = None\<rparr>
   \<and> Name decl_swag_Test = ''Test''
   \<and> TypeSpec (decl_swag_Test\<lparr>TypeSpec := None\<rparr>) = None
   \<and> Name (decl_swag_Test\<lparr>TypeSpec := None\<rparr>) = []"
  using Name_total [of decl_swag_Test] Name_total [of "decl_swag_Test\<lparr>TypeSpec := None\<rparr>"]
  by (simp add: decl_swag_Test_def)

text \<open>
  C1 as stated fails: the unique top-level declaration \<open>Test\<close> of package
  \<open>swag\<close> is named \<open>swag.Test\<close>, not \<open>Test\<close>.
\<close>

theorem TypeName_unique_counterexample:
  "\<not> NotUnique decl_swag_Test \<and> parentFun decl_swag_Test = None
   \<and> Name decl_swag_Test = ''Test''
   \<and> TypeName dollarPrefixed decl_swag_Test = Inr ''swag.Test''
   \<and> TypeName dollarPrefixed decl_swag_Test \<noteq> Inr (Name decl_swag_Test)"
  by (simp add: decl_swag_Test_def TypeName_def unitNames_def parentFun_def Name_def dollarPrefixed_def)

text \<open>
  C1, amended. A declaration that is not marked as colliding, is not declared
  inside a function and whose name is not exempt from renaming is named by the
  package name of its file, a dot and its short name; it is named by the short
  name alone only when it has no file. A file without a package-name node
  makes the call panic. When the declaration carries no alias, this name is
  the schema name that \<open>SetSchemaName\<close> stores.
\<close>

theorem TypeName_unique_toplevel:
  assumes "TypeSpec t = Some ts" and "TypeSpec_Name ts = Some i"
    and "\<not> ignoreNameOverride (ident_Name i)"
    and "\<not> NotUnique t" and "parentFun t = None"
  shows "TypeName ignoreNameOverride t =
           (case File t of
              None \<Rightarrow> Inr (ident_Name i)
            | Some f \<Rightarrow> (case File_Name f of
                          None \<Rightarrow> Inl NilDereference
                        | Some p \<Rightarrow> Inr (ident_Name p @ ''.'' @ ident_Name i)))
    \<and> (nameOverride (TypeSpec_Comment ts) = [] \<longrightarrow>
          SetSchemaName nameOverride ignoreNameOverride t =
            (case TypeName ignoreNameOverride t of
               Inl e \<Rightarrow> Inl e
             | Inr n \<Rightarrow> Inr (t\<lparr>SchemaName := n\<rparr>)))"
  using assms
  by (simp add: TypeName_def unitNames_def SetSchemaName_def Alias_def split: option.splits)

text \<open>C1, amended, at the declaration \<open>Test\<close> of package \<open>swag\<close>.\<close>

theorem TypeName_unique_toplevel_witness:
  "TypeSpec decl_swag_Test = Some \<lparr>TypeSpec_Name = Some \<lparr>ident_Name = ''Test''\<rparr>, TypeSpec_Comment = None\<rparr>
   \<and> \<not> dollarPrefixed ''Test'' \<and> \<not> NotUnique decl_swag_Test \<and> parentFun decl_swag_Test = None
   \<and> atName None = []
   \<and> TypeName dollarPrefixed decl_swag_Test = Inr ''swag.Test''
   \<and> SetSchemaName atName dollarPrefixed decl_swag_Test
       = Inr (decl_swag_Test\<lparr>SchemaName := ''swag.Test''\<rparr>)"
  using TypeName_unique_toplevel [of decl_swag_Test
      "\<lparr>TypeSpec_Name = Some \<lparr>ident_Name = ''Test''\<rparr>, TypeSpec_Comment = None\<rparr>"
      "\<lparr>ident_Name = ''Test''\<rparr>" dollarPrefixed atName]
  by (simp add: decl_swag_Test_def parentFun_def dollarPrefixed_def)

text \<open>
  C2 as stated fails: two colliding declarations \<open>Pet\<close> in the distinct units
  \<open>example.com/shop/api.v1/model\<close> and \<open>example.com/shop/api/v1/model\<close> receive
  the same name.
\<close>

theorem TypeName_collision_counterexample:
  "PkgPath (decl_Pet ''example.com/shop/api.v1/model'') \<noteq> PkgPath (decl_Pet ''example.com/shop/api/v1/model'')
   \<and> NotUnique (decl_Pet ''example.com/shop/api.v1/model'')
   \<and> NotUnique (decl_Pet ''example.com/shop/api/v1/model'')
   \<and> TypeName dollarPrefixed (decl_Pet ''example.com/shop/api.v1/model'') = Inr ''example_com_shop_api_v1_model.Pet''
   \<and> TypeName dollarPrefixed (decl_Pet ''example.com/shop/api/v1/model'') = Inr ''example_com_shop_api_v1_model.Pet''"
  by (simp add: decl_Pet_def TypeName_def unitNames_def parentFun_def dollarPrefixed_def
      sanitizeRune_def)

text \<open>
  C2, amended. A top-level declaration marked as colliding, whose name is not
  exempt from renaming, is named by its sanitized package path, a dot and its
  short name; no slash, backslash or dot is left in the sanitized path, and on
  an ASCII path sanitizing replaces exactly these three characters by
  underscores; two such declarations of the same short name receive distinct
  names exactly when their sanitized paths differ.
\<close>

theorem TypeName_collision:
  assumes "TypeSpec t = Some ts" and "TypeSpec_Name ts = Some i"
    and "\<not> ignoreNameOverride (ident_Name i)"
    and "NotUnique t" and "parentFun t = None"
  shows "TypeName ignoreNameOverride t = Inr (sanitizePkgPath (PkgPath t) @ ''.'' @ ident_Name i)
    \<and> CHR ''/'' \<notin> set (sanitizePkgPath (PkgPath t))
    \<and> CHR 0x5C \<notin> set (sanitizePkgPath (PkgPath t))
    \<and> CHR ''.'' \<notin> set (sanitizePkgPath (PkgPath t))
    \<and> ((\<forall>c \<in> set (PkgPath t). (of_char c :: nat) < 0x80) \<longrightarrow>
          sanitizePkgPath (PkgPath t) = map sanitizeRune (PkgPath t))
    \<and> (\<forall>t' ts'. TypeSpec t' = Some ts' \<and> TypeSpec_Name ts' = Some i \<and> NotUnique t' \<and> parentFun t' = None \<longrightarrow>
          (TypeName ignoreNameOverride t = TypeName ignoreNameOverride t'
             \<longleftrightarrow> sanitizePkgPath (PkgPath t) = sanitizePkgPath (PkgPath t')))"
proof -
  have name: "TypeName ignoreNameOverride u = Inr (sanitizePkgPath (PkgPath u) @ ''.'' @ ident_Name i)"
    if "TypeSpec u = Some us" "TypeSpec_Name us = Some i" "NotUnique u" "parentFun u = None" for u us
    using that assms(3) by (simp add: TypeName_def unitNames_def)
  have "CHR ''/'' \<notin> set (sanitizePkgPath (PkgPath t))"
    "CHR 0x5C \<notin> set (sanitizePkgPath (PkgPath t))"
    "CHR ''.'' \<notin> set (sanitizePkgPath (PkgPath t))"
    using sanitize_no_sep by blast+
  moreover have "(\<forall>c \<in> set (PkgPath t). (of_char c :: nat) < 0x80) \<longrightarrow>
          sanitizePkgPath (PkgPath t) = map sanitizeRune (PkgPath t)"
    using sanitize_ascii by blast
  moreover have "TypeName ignoreNameOverride t = TypeName ignoreNameOverride t'
             \<longleftrightarrow> sanitizePkgPath (PkgPath t) = sanitizePkgPath (PkgPath t')"
    if "TypeSpec t' = Some ts'" "TypeSpec_Name ts' = Some i" "NotUnique t'" "parentFun t' = None" for t' ts'
    using name [OF assms(1,2,4,5)] name [OF that] by simp
  ultimately show ?thesis using name [OF assms(1,2,4,5)] by blast
qed

text \<open>C2, amended, at the declarations \<open>Pet\<close> of the units \<open>a/b\<close> and \<open>c.d\<close>.\<close>

theorem TypeName_collision_witness:
  "TypeSpec (decl_Pet ''a/b'') = Some \<lparr>TypeSpec_Name = Some \<lparr>ident_Name = ''Pet''\<rparr>, TypeSpec_Comment = None\<rparr>
   \<and> \<not> dollarPrefixed ''Pet'' \<and> NotUnique (decl_Pet ''a/b'') \<and> parentFun (decl_Pet ''a/b'') = None
   \<and> NotUnique (decl_Pet ''c.d'') \<and> parentFun (decl_Pet ''c.d'') = None
   \<and> TypeName dollarPrefixed (decl_Pet ''a/b'') = Inr ''a_b.Pet''
   \<and> sanitizePkgPath (PkgPath (decl_Pet ''a/b'')) = map sanitizeRune ''a/b''
   \<and> TypeName dollarPrefixed (decl_Pet ''a/b'') \<noteq> TypeName dollarPrefixed (decl_Pet ''c.d'')"
proof -
  let ?ts = "\<lparr>TypeSpec_Name = Some \<lparr>ident_Name = ''Pet''\<rparr>, TypeSpec_Comment = None\<rparr>"
  have h: "TypeSpec (decl_Pet p) = Some ?ts" "TypeSpec_Name ?ts = Some \<lparr>ident_Name = ''Pet''\<rparr>"
    "\<not> dollarPrefixed (ident_Name \<lparr>ident_Name = ''Pet''\<rparr>)" "NotUnique (decl_Pet p)"
    "parentFun (decl_Pet p) = None" for p
    by (simp_all add: decl_Pet_def parentFun_def dollarPrefixed_def)
  have s: "sanitizePkgPath ''a/b'' = ''a_b''" "sanitizePkgPath ''c.d'' = ''c_d''"
    by (simp_all add: sanitizeRune_def)
  from TypeName_collision [of "decl_Pet ''a/b''" ?ts "\<lparr>ident_Name = ''Pet''\<rparr>" dollarPrefixed, OF h]
  have "TypeName dollarPrefixed (decl_Pet ''a/b'') = Inr ''a_b.Pet''"
    and "sanitizePkgPath (PkgPath (decl_Pet ''a/b'')) = map sanitizeRune ''a/b''"
    and "TypeName dollarPrefixed (decl_Pet ''a/b'') \<noteq> TypeName dollarPrefixed (decl_Pet ''c.d'')"
    using h(1,4,5) [of "''c.d''"] h(2) s by (auto simp: decl_Pet_def)
  then show ?thesis using h by (simp add: dollarPrefixed_def)
qed




text \<open>
  C4. When the declaration carries a non-empty alias, \<open>SetSchemaName\<close> stores
  exactly the alias, whatever the file, the package path, the enclosing
  declaration, the collision mark and the short name are; \<open>TypeName\<close> is not
  consulted.
\<close>

theorem SetSchemaName_alias_wins:
  assumes "TypeSpec t = Some ts" and "nameOverride (TypeSpec_Comment ts) = alias" and "alias \<noteq> []"
  shows "SetSchemaName nameOverride ignoreNameOverride t = Inr (t\<lparr>SchemaName := alias\<rparr>)"
  using assms by (simp add: SetSchemaName_def Alias_def)


text \<open>C4 at the struct \<open>Parent\<close> renamed \<open>Teacher\<close>.\<close>

theorem SetSchemaName_alias_wins_witness:
  "TypeSpec decl_Parent = Some \<lparr>TypeSpec_Name = Some \<lparr>ident_Name = ''Parent''\<rparr>,
                                TypeSpec_Comment = Some [''//@name Teacher'']\<rparr>
   \<and> atName (Some [''//@name Teacher'']) = ''Teacher'' \<and> ''Teacher'' \<noteq> []
   \<and> SetSchemaName atName dollarPrefixed decl_Parent = Inr (decl_Parent\<lparr>SchemaName := ''Teacher''\<rparr>)"
proof -
  let ?ts = "\<lparr>TypeSpec_Name = Some \<lparr>ident_Name = ''Parent''\<rparr>,
              TypeSpec_Comment = Some [''//@name Teacher'']\<rparr>"
  have h: "TypeSpec decl_Parent = Some ?ts" "atName (TypeSpec_Comment ?ts) = ''Teacher''"
    "''Teacher'' \<noteq> []"
    by (simp_all add: decl_Parent_def)
  from SetSchemaName_alias_wins [of decl_Parent ?ts atName "''Teacher''" dollarPrefixed, OF h] h
  show ?thesis by simp
qed

section \<open>The schema resolver: properties\<close>


text \<open>An ignored field leaves the accumulator as it is, wherever it stands.\<close>

lemma resolve_field_ignored:
  "dir_ignore (fi_dirs fi) \<Longrightarrow> resolve_field k en (Field fi t) a = Some (Inr a)"
  by (cases a) simp

lemma resolve_fields_ignored:
  "dir_ignore (fi_dirs fi) \<Longrightarrow>
   resolve_fields k en (fs1 @ Field fi t # fs2) a = resolve_fields k en (fs1 @ fs2) a"
proof (induction fs1 arbitrary: a)
  case Nil
  then show ?case by (simp add: resolve_field_ignored)
next
  case (Cons f fs1)
  then show ?case by (simp split: option.splits sum.splits)
qed

text \<open>
  C9. A field that carries the ignore directive leaves the property map, the
  required set and the registered schemas of its owner unchanged; resolving
  the fields of a composite, or the composite itself, gives the same result
  with the ignored field as with the field deleted from the declaration. The
  type of an ignored field is not resolved, so when it is an embedded
  composite none of its members is promoted.
\<close>

theorem ignored_field_absent:
  assumes "dir_ignore (fi_dirs fi)"
  shows "resolve_field k en (Field fi t) a = Some (Inr a)
    \<and> resolve_fields k en (fs1 @ Field fi t # fs2) a = resolve_fields k en (fs1 @ fs2) a
    \<and> resolve k en (Composite (fs1 @ Field fi t # fs2)) out = resolve k en (Composite (fs1 @ fs2)) out"
  using assms by (simp add: resolve_field_ignored resolve_fields_ignored)


text \<open>
  C7, amended. A name that is neither a key of the override table nor
  registered fails with the unresolved-reference error, which reports the
  name; a name that is an override target with a replacement resolves as the
  replacement does.
\<close>

theorem unresolved_reference:
  "(overrides en n = None \<and> registry en n = None \<longrightarrow>
      resolve k en (NamedRef n) out = Some (Inl (UnresolvedReference n))
      \<and> error_text (UnresolvedReference n) = ''cannot find type definition: '' @ n)
   \<and> (\<forall>e. overrides en n = Some (Replacement e) \<longrightarrow>
          resolve (Suc k) en (NamedRef n) out = resolve k en e out)"
  by (simp add: error_text_def)





section \<open>The schema resolver on the tests' types\<close>

lemmas test_defs = test_env_def reg_Teacher_def reg_Student_def reg_Child_def reg_Parent_def
  reg_Owner_def reg_Class_def reg_Test_def named_decl_def fld_def plain_def string_schema_def
  class_enums_def decl_model_Test_def

lemmas step_defs = no_meta_def field_meta_def add_field_def register_def close_object_def
  on_resolved_def add_own_def emitted_name_def

text \<open>
  C9 at the owner of \<open>TestParseSwaggerignoreForEmbedded\<close>: with the embedded
  \<open>Child\<close> ignored, the object has the property \<open>Name\<close> alone and \<open>Child\<close> is
  not registered.
\<close>

theorem ignored_field_absent_witness:
  "dir_ignore (fi_dirs (fld ''Child'' (plain\<lparr>dir_ignore := True, dir_embed := True\<rparr>) []))
   \<and> resolve 1 test_env
        (Composite
           [Field (fld ''Name'' plain []) (Scalar PString []),
            Field (fld ''Child'' (plain\<lparr>dir_ignore := True, dir_embed := True\<rparr>) []) (NamedRef ''Child'')])
        Map.empty
      = Some (Inr (Resolved (Schema (KObject [(''Name'', string_schema)] {}) no_meta), Map.empty))"
proof -
  let ?fi = "fld ''Child'' (plain\<lparr>dir_ignore := True, dir_embed := True\<rparr>) []"
  have h: "dir_ignore (fi_dirs ?fi)"
    by (simp add: fld_def plain_def)
  have "resolve 1 test_env (Composite [Field (fld ''Name'' plain []) (Scalar PString [])]) Map.empty
      = Some (Inr (Resolved (Schema (KObject [(''Name'', string_schema)] {}) no_meta), Map.empty))"
    by (simp add: test_defs step_defs)
  with ignored_field_absent [OF h, of 1 test_env "NamedRef ''Child''" _
      "[Field (fld ''Name'' plain []) (Scalar PString [])]" "[]" Map.empty] h
  show ?thesis by simp
qed


text \<open>
  C7 as stated fails: the name \<open>Test\<close> is registered and not overridden, and
  its resolution fails all the same, because its type is a function type.
\<close>

theorem unresolved_reference_counterexample:
  "overrides test_env ''Test'' = None
   \<and> registry test_env ''Test'' = Some reg_Test
   \<and> resolve 1 test_env (NamedRef ''Test'') Map.empty = Some (Inl InvalidTypeShape)"
  by (simp add: test_defs step_defs)

text \<open>
  C7, amended, at the two names of \<open>TestOverrides_getTypeSchema\<close>:
  \<open>sql.NullInt64\<close> is unknown, \<open>sql.NullString\<close> is overridden by \<open>string\<close>.
\<close>

theorem unresolved_reference_witness:
  "overrides test_env ''sql.NullInt64'' = None
   \<and> registry test_env ''sql.NullInt64'' = None
   \<and> resolve 0 test_env (NamedRef ''sql.NullInt64'') Map.empty
       = Some (Inl (UnresolvedReference ''sql.NullInt64''))
   \<and> error_text (UnresolvedReference ''sql.NullInt64'') = ''cannot find type definition: sql.NullInt64''
   \<and> overrides test_env ''sql.NullString'' = Some (Replacement (Scalar PString []))
   \<and> resolve 1 test_env (NamedRef ''sql.NullString'') Map.empty
       = Some (Inr (Resolved string_schema, Map.empty))"
proof -
  have h1: "overrides test_env ''sql.NullInt64'' = None \<and> registry test_env ''sql.NullInt64'' = None"
    and h2: "overrides test_env ''sql.NullString'' = Some (Replacement (Scalar PString []))"
    by (simp_all add: test_defs)
  have s: "resolve 0 test_env (Scalar PString []) Map.empty = Some (Inr (Resolved string_schema, Map.empty))"
    by (simp add: string_schema_def)
  from unresolved_reference [of test_env "''sql.NullInt64''" 0 Map.empty] h1
  have a: "resolve 0 test_env (NamedRef ''sql.NullInt64'') Map.empty
       = Some (Inl (UnresolvedReference ''sql.NullInt64''))"
    and b: "error_text (UnresolvedReference ''sql.NullInt64'') = ''cannot find type definition: sql.NullInt64''"
    by simp_all
  from unresolved_reference [of test_env "''sql.NullString''" 0 Map.empty] h2 s
  have c: "resolve 1 test_env (NamedRef ''sql.NullString'') Map.empty
       = Some (Inr (Resolved string_schema, Map.empty))"
    by simp
  from h1 h2 a b c show ?thesis by blast
qed



end
